theory Spec2Isabelle
  imports Main
begin

section \<open>ChromaTerm: a shallow embedding of \<open>chromaterm/__init__.py\<close>\<close>

subsection \<open>Python values\<close>

text \<open>
  A Python \<open>str\<close> is a sequence of Unicode code points, so a string is a list of
  natural numbers. \<open>str\<close> turns an ASCII literal into such a list.
\<close>

type_synonym pystr = "nat list"

definition str :: "string \<Rightarrow> pystr" where
  "str cs = map of_char cs"

text \<open>
  The values \<open>yaml.safe_load\<close> can hand to the program. \<open>PObj b\<close> stands for an
  object of any other class (a float, a date, bytes, a set); the program only ever
  takes the truth value \<open>b\<close> of such an object and asks for its class.
\<close>

datatype pyval =
    PNone
  | PBool bool
  | PInt int
  | PStr pystr
  | PList "pyval list"
  | PDict "(pyval \<times> pyval) list"
  | PObj bool

text \<open>The exceptions that the modelled code and the libraries it calls can raise.\<close>

datatype exn =
    AttributeError
  | TypeError
  | RegexError
  | SystemExit
  | OSError
  | UnicodeDecodeError

text \<open>Truth value of an object, as \<open>if not x\<close> tests it.\<close>

fun truthy :: "pyval \<Rightarrow> bool" where
  "truthy PNone = False"
| "truthy (PBool b) = b"
| "truthy (PInt i) = (i \<noteq> 0)"
| "truthy (PStr s) = (s \<noteq> [])"
| "truthy (PList xs) = (xs \<noteq> [])"
| "truthy (PDict kvs) = (kvs \<noteq> [])"
| "truthy (PObj b) = b"

fun isinstance_str :: "pyval \<Rightarrow> bool" where
  "isinstance_str (PStr s) = True"
| "isinstance_str v = False"

text \<open>\<open>bool\<close> is a subclass of \<open>int\<close>: \<open>isinstance(True, int)\<close> holds.\<close>

fun isinstance_int :: "pyval \<Rightarrow> bool" where
  "isinstance_int (PInt i) = True"
| "isinstance_int (PBool b) = True"
| "isinstance_int v = False"

fun isinstance_dict :: "pyval \<Rightarrow> bool" where
  "isinstance_dict (PDict kvs) = True"
| "isinstance_dict v = False"

text \<open>
  \<open>obj.get(key, default)\<close> with a string key: only a dict has the method, every
  other object raises \<open>AttributeError\<close>.
\<close>

fun dict_get :: "pyval \<Rightarrow> pystr \<Rightarrow> pyval \<Rightarrow> exn + pyval" where
  "dict_get (PDict kvs) key dflt =
     Inr (case map_of kvs (PStr key) of None \<Rightarrow> dflt | Some v \<Rightarrow> v)"
| "dict_get v key dflt = Inl AttributeError"

subsection \<open>The regular expression library\<close>

text \<open>
  The \<open>regex\<close> module is not part of the program; it enters the model as a parameter.
  \<open>re_groups p\<close> is \<open>re.compile(p).groups\<close> and \<open>re_finditer p s\<close> lists the
  matches of \<open>p\<close> in \<open>s\<close> that \<open>re.sub\<close> replaces (the leftmost non-overlapping
  ones, from left to right), each with its span and the spans of its capture groups.
  Either raises for a pattern that does not compile.
\<close>

type_synonym span = "nat \<times> nat"

record engine =
  re_groups :: "pystr \<Rightarrow> exn + nat"
  re_finditer :: "pystr \<Rightarrow> pystr \<Rightarrow> exn + (span \<times> span option list) list"

text \<open>A match object: the subject string, the span of the match, the group spans.\<close>

record re_match =
  m_string :: pystr
  m_span :: span
  m_groups :: "span option list"

text \<open>\<open>match.group(0)\<close>: the matched text.\<close>

definition group0 :: "re_match \<Rightarrow> pystr" where
  "group0 m = take (snd (m_span m) - fst (m_span m)) (drop (fst (m_span m)) (m_string m))"

text \<open>
  \<open>re.sub(pattern, repl, string)\<close> with a function \<open>repl\<close>: the text between the
  matches is kept and every match is replaced by what \<open>repl\<close> returns for it.
  \<open>replace_from\<close> rebuilds the string from position \<open>pos\<close> on. A pattern that is
  not a string (the YAML values are never compiled patterns) raises \<open>TypeError\<close>.
\<close>

fun replace_from ::
  "(re_match \<Rightarrow> pystr) \<Rightarrow> pystr \<Rightarrow> nat \<Rightarrow> (span \<times> span option list) list \<Rightarrow> pystr" where
  "replace_from repl line pos [] = drop pos line"
| "replace_from repl line pos ((sp, gs) # ms) =
     take (fst sp - pos) (drop pos line)
       @ repl \<lparr>m_string = line, m_span = sp, m_groups = gs\<rparr>
       @ replace_from repl line (snd sp) ms"

fun re_sub :: "engine \<Rightarrow> pyval \<Rightarrow> (re_match \<Rightarrow> pystr) \<Rightarrow> pystr \<Rightarrow> exn + pystr" where
  "re_sub E (PStr p) repl line =
     (case re_finditer E p line of
        Inl e \<Rightarrow> Inl e
      | Inr ms \<Rightarrow> Inr (replace_from repl line 0 ms))"
| "re_sub E v repl line = Inl TypeError"

text \<open>\<open>re.compile(regex).groups\<close>.\<close>

fun re_compile_groups :: "engine \<Rightarrow> pyval \<Rightarrow> exn + nat" where
  "re_compile_groups E (PStr p) = re_groups E p"
| "re_compile_groups E v = Inl TypeError"

subsection \<open>Rules and configuration\<close>

text \<open>
  A compiled rule is the dict \<open>{'regex': regex, 'repl_func': func}\<close>; the
  configuration is the dict \<open>{'rules': [...], 'reset_string': ...}\<close>.
\<close>

record compiled_rule =
  regex :: pyval
  repl_func :: "re_match \<Rightarrow> pystr"

record config =
  rules :: "compiled_rule list"
  reset_string :: pystr

text \<open>
  The error strings that \<open>parse_rule\<close> and \<open>get_highlight_repl_func\<close> return, in the
  order of the source: \<open>'regex not found'\<close>, \<open>'regex not string or integer'\<close>,
  \<open>'color not found'\<close>, \<open>'color not string or dictionary'\<close>,
  \<open>'sub-action {} not integer'\<close>, \<open>'sub-action {} value not string '\<close> (both with the
  key they name) and \<open>'invalid color code'\<close>.
\<close>

datatype rule_error =
    RegexNotFound
  | RegexNotStringOrInteger
  | ColorNotFound
  | ColorNotStringOrDictionary
  | SubActionNotInteger pyval
  | SubActionValueNotString pyval
  | InvalidColorCode

text \<open>
  \<open>chromaterm.colors.get_code\<close> is a parameter \<open>get_code\<close>: it returns the escape
  sequence of a colour, or \<open>None\<close> or the empty string for a colour it does not
  know. \<open>not color_code\<close> is then the test below.
\<close>

fun no_code :: "pystr option \<Rightarrow> bool" where
  "no_code None = True"
| "no_code (Some c) = (c = [])"

text \<open>
  \<open>x <= group_count\<close> for a key of the colour dict. \<open>parse_rule\<close> lets only
  integers (and booleans, which are integers) through; any other key is modelled as
  the \<open>TypeError\<close> that comparing a string or \<open>None\<close> with an integer raises.
\<close>

fun le_group_count :: "pyval \<Rightarrow> nat \<Rightarrow> exn + bool" where
  "le_group_count (PInt i) n = Inr (i \<le> int n)"
| "le_group_count (PBool b) n = Inr ((if b then 1 else 0) \<le> n)"
| "le_group_count v n = Inl TypeError"

text \<open>The list comprehension \<open>[x for x in color if x <= group_count]\<close>, over the items.\<close>

fun groups_in_range :: "(pyval \<times> pyval) list \<Rightarrow> nat \<Rightarrow> exn + (pyval \<times> pyval) list" where
  "groups_in_range [] n = Inr []"
| "groups_in_range ((k, v) # kvs) n =
     (case le_group_count k n of
        Inl e \<Rightarrow> Inl e
      | Inr keep \<Rightarrow>
          (case groups_in_range kvs n of
             Inl e \<Rightarrow> Inl e
           | Inr rest \<Rightarrow> Inr (if keep then (k, v) # rest else rest)))"

text \<open>
  The loop that fills \<open>actions\<close>: it stops with \<open>'invalid color code'\<close> at the first
  colour without a code.
\<close>

fun collect_actions ::
  "(pyval \<Rightarrow> pystr option) \<Rightarrow> (pyval \<times> pyval) list \<Rightarrow> (pyval \<times> pystr) list
     \<Rightarrow> rule_error + (pyval \<times> pystr) list" where
  "collect_actions get_code [] actions = Inr actions"
| "collect_actions get_code ((grp, color) # kvs) actions =
     (if no_code (get_code color) then Inl InvalidColorCode
      else collect_actions get_code kvs (actions @ [(grp, the (get_code color))]))"

text \<open>
  \<open>get_highlight_repl_func(config, regex, color)\<close>. The result is a Python exception,
  an error string or the compiled rule. The replace function of a simple action reads
  \<open>config['reset_string']\<close>, which nothing changes after \<open>parse_config\<close> has set it.
  The replace function of a complex action returns \<open>match.group(0)\<close> on both of its
  paths, as in the source. \<open>parse_rule\<close> passes a string or a dict as \<open>color\<close>; for any
  other value iterating or comparing raises, which is all the model says about them.
\<close>

fun get_highlight_repl_func ::
  "engine \<Rightarrow> (pyval \<Rightarrow> pystr option) \<Rightarrow> config \<Rightarrow> pyval \<Rightarrow> pyval
     \<Rightarrow> exn + (rule_error + compiled_rule)" where
  "get_highlight_repl_func E get_code config pattern (PStr color) =
     (if no_code (get_code (PStr color)) then Inr (Inl InvalidColorCode)
      else Inr (Inr \<lparr>regex = pattern,
                      repl_func = (\<lambda>m. the (get_code (PStr color)) @ group0 m @ reset_string config)\<rparr>))"
| "get_highlight_repl_func E get_code config pattern (PDict color) =
     (case re_compile_groups E pattern of
        Inl e \<Rightarrow> Inl e
      | Inr group_count \<Rightarrow>
          (case groups_in_range color group_count of
             Inl e \<Rightarrow> Inl e
           | Inr selected \<Rightarrow>
               (case collect_actions get_code selected [] of
                  Inl err \<Rightarrow> Inr (Inl err)
                | Inr actions \<Rightarrow>
                    Inr (Inr \<lparr>regex = pattern,
                              repl_func = (\<lambda>m. if actions = [] then group0 m else group0 m)\<rparr>))))"
| "get_highlight_repl_func E get_code config pattern color = Inl TypeError"

subsection \<open>The highlighter\<close>

text \<open>\<open>highlight(rules, line)\<close>: every rule rewrites the result of the rules before it.\<close>

fun highlight :: "engine \<Rightarrow> compiled_rule list \<Rightarrow> pystr \<Rightarrow> exn + pystr" where
  "highlight E [] line = Inr line"
| "highlight E (rule # rest) line =
     (case re_sub E (regex rule) (repl_func rule) line of
        Inl e \<Rightarrow> Inl e
      | Inr line' \<Rightarrow> highlight E rest line')"

subsection \<open>Parsing the configuration\<close>

text \<open>
  What the program does to the outside world, in the order in which it does it:
  opening the configuration file, one \<open>os.read\<close> of standard input, one \<open>print\<close> to
  standard output (the text, and whether \<open>flush=True\<close> was given) and the two kinds
  of \<open>eprint\<close> to standard error.
\<close>

datatype event =
    Open_File pyval
  | Os_Read
  | Print pystr bool
  | Eprint_Parse_Error
  | Eprint_Rule_Error pyval rule_error

text \<open>The loop over the items of a colour dict in \<open>parse_rule\<close>.\<close>

fun check_sub_actions :: "(pyval \<times> pyval) list \<Rightarrow> rule_error option" where
  "check_sub_actions [] = None"
| "check_sub_actions ((sub_action, v) # kvs) =
     (if \<not> isinstance_int sub_action then Some (SubActionNotInteger sub_action)
      else if \<not> isinstance_str v then Some (SubActionValueNotString sub_action)
      else check_sub_actions kvs)"

fun sub_action_check :: "pyval \<Rightarrow> rule_error option" where
  "sub_action_check (PDict kvs) = check_sub_actions kvs"
| "sub_action_check color = None"

text \<open>\<open>parse_rule(rule, config)\<close>.\<close>

definition parse_rule ::
  "engine \<Rightarrow> (pyval \<Rightarrow> pystr option) \<Rightarrow> pyval \<Rightarrow> config \<Rightarrow> exn + (rule_error + compiled_rule)" where
  "parse_rule E get_code rule config =
     (case dict_get rule (str ''regex'') PNone of
        Inl e \<Rightarrow> Inl e
      | Inr pattern \<Rightarrow>
          if \<not> truthy pattern then Inr (Inl RegexNotFound)
          else if \<not> isinstance_str pattern \<and> \<not> isinstance_int pattern
            then Inr (Inl RegexNotStringOrInteger)
          else
            (case dict_get rule (str ''color'') PNone of
               Inl e \<Rightarrow> Inl e
             | Inr color \<Rightarrow>
                 if \<not> truthy color then Inr (Inl ColorNotFound)
                 else if \<not> isinstance_str color \<and> \<not> isinstance_dict color
                   then Inr (Inl ColorNotStringOrDictionary)
                 else
                   (case sub_action_check color of
                      Some err \<Rightarrow> Inr (Inl err)
                    | None \<Rightarrow> get_highlight_repl_func E get_code config pattern color)))"

text \<open>
  The loop over the rules in \<open>parse_config\<close>: a compiled rule is appended to
  \<open>config['rules']\<close>, an error string is reported with \<open>eprint\<close>. The events are
  collected in \<open>evs\<close>.
\<close>

fun parse_rules ::
  "engine \<Rightarrow> (pyval \<Rightarrow> pystr option) \<Rightarrow> pyval list \<Rightarrow> config \<Rightarrow> event list
     \<Rightarrow> (exn + config) \<times> event list" where
  "parse_rules E get_code [] config evs = (Inr config, evs)"
| "parse_rules E get_code (rule # rest) config evs =
     (case parse_rule E get_code rule config of
        Inl e \<Rightarrow> (Inl e, evs)
      | Inr (Inr parsed_rule) \<Rightarrow>
          parse_rules E get_code rest (config\<lparr>rules := rules config @ [parsed_rule]\<rparr>) evs
      | Inr (Inl msg) \<Rightarrow>
          parse_rules E get_code rest config (evs @ [Eprint_Rule_Error rule msg]))"

text \<open>\<open>rules if isinstance(rules, list) else []\<close>.\<close>

fun list_or_empty :: "pyval \<Rightarrow> pyval list" where
  "list_or_empty (PList xs) = xs"
| "list_or_empty v = []"

text \<open>The reset string \<open>'\033[0m'\<close>.\<close>

definition default_config :: config where
  "default_config = \<lparr>rules = [], reset_string = 27 # str ''[0m''\<rparr>"

text \<open>
  \<open>parse_config(data)\<close>. \<open>yaml.safe_load\<close> is a parameter: \<open>None\<close> stands for a
  \<open>yaml.YAMLError\<close>, \<open>Some v\<close> for the document \<open>v\<close>.
\<close>

definition parse_config ::
  "engine \<Rightarrow> (pyval \<Rightarrow> pystr option) \<Rightarrow> ('d \<Rightarrow> pyval option) \<Rightarrow> 'd
     \<Rightarrow> (exn + config) \<times> event list" where
  "parse_config E get_code safe_load data =
     (case safe_load data of
        None \<Rightarrow> (Inr default_config, [Eprint_Parse_Error])
      | Some load \<Rightarrow>
          (case dict_get load (str ''rules'') (PList []) of
             Inl e \<Rightarrow> (Inl e, [])
           | Inr rs \<Rightarrow> parse_rules E get_code (list_or_empty rs) default_config []))"

subsection \<open>The stream driver\<close>

text \<open>
  \<open>str.splitlines(True)\<close>: a line ends after \<open>\n\<close>, \<open>\r\<close>, \<open>\r\n\<close>, \<open>\v\<close>, \<open>\f\<close>,
  \<open>\x1c\<close>, \<open>\x1d\<close>, \<open>\x1e\<close>, \<open>\x85\<close>, \<open>U+2028\<close> or \<open>U+2029\<close>, and the line keeps
  its terminator. \<open>splitlines_from cur s\<close> has read \<open>cur\<close> of the current line.
\<close>

definition line_boundary :: "nat \<Rightarrow> bool" where
  "line_boundary c = (c \<in> {10, 11, 12, 13, 28, 29, 30, 133, 8232, 8233})"

fun splitlines_from :: "pystr \<Rightarrow> pystr \<Rightarrow> pystr list" where
  "splitlines_from cur [] = (if cur = [] then [] else [cur])"
| "splitlines_from cur [c] = [cur @ [c]]"
| "splitlines_from cur (c # d # cs) =
     (if c = 13 \<and> d = 10 then (cur @ [c, d]) # splitlines_from [] cs
      else if line_boundary c then (cur @ [c]) # splitlines_from [] (d # cs)
      else splitlines_from (cur @ [c]) (d # cs))"

definition splitlines :: "pystr \<Rightarrow> pystr list" where
  "splitlines s = splitlines_from [] s"

text \<open>The loop \<open>for line in lines[:-1]: print(highlight(config['rules'], line), end='')\<close>.\<close>

fun print_lines :: "engine \<Rightarrow> compiled_rule list \<Rightarrow> pystr list \<Rightarrow> (exn + unit) \<times> event list" where
  "print_lines E rs [] = (Inr (), [])"
| "print_lines E rs (line # lines) =
     (case highlight E rs line of
        Inl e \<Rightarrow> (Inl e, [])
      | Inr out \<Rightarrow>
          (case print_lines E rs lines of (res, evs) \<Rightarrow> (res, Print out False # evs)))"

text \<open>
  \<open>process_buffer(config, buffer, more)\<close>. \<open>ready\<close> is the answer of
  \<open>read_ready(WAIT_FOR_NEW_LINE)\<close>, which the environment decides; the call is made
  before \<open>more\<close> (here \<open>more_data\<close>) is looked at, and only if the buffer has a line.
\<close>

definition process_buffer ::
  "engine \<Rightarrow> config \<Rightarrow> pystr \<Rightarrow> bool \<Rightarrow> bool \<Rightarrow> (exn + pystr) \<times> event list" where
  "process_buffer E config buffer more_data ready =
     (let lines = splitlines buffer in
      if lines = [] then (Inr [], [])
      else
        (case print_lines E (rules config) (butlast lines) of
           (Inl e, evs) \<Rightarrow> (Inl e, evs)
         | (Inr u, evs) \<Rightarrow>
             if ready \<and> more_data then (Inr (last lines), evs)
             else
               (case highlight E (rules config) (last lines) of
                  Inl e \<Rightarrow> (Inl e, evs)
                | Inr out \<Rightarrow> (Inr [], evs @ [Print out True]))))"

text \<open>The text that an event puts on standard output.\<close>

fun printed :: "event \<Rightarrow> pystr" where
  "printed (Print s fl) = s"
| "printed ev = []"

text \<open>
  The loop of \<open>main\<close>. Standard input is the list of what the successive
  \<open>os.read\<close> calls return before the end of the input, each with the answer that
  \<open>read_ready(WAIT_FOR_NEW_LINE)\<close> gives in the pass after it; once the list is used
  up every read returns \<open>b''\<close> and standard input counts as ready. \<open>read_ready()\<close>
  without a timeout blocks until it can return \<open>True\<close>. \<open>decode\<close> is
  \<open>bytes.decode\<close> on a chunk that is not empty, \<open>None\<close> when it raises.
\<close>

function main_loop ::
  "engine \<Rightarrow> (nat list \<Rightarrow> pystr option) \<Rightarrow> config \<Rightarrow> pystr \<Rightarrow> (nat list \<times> bool) list
     \<Rightarrow> (exn + unit) \<times> event list" where
  "main_loop E decode config buffer [] =
     (if buffer = [] then (Inr (), [Os_Read])
      else
        (case process_buffer E config buffer False True of
           (Inl e, evs) \<Rightarrow> (Inl e, Os_Read # evs)
         | (Inr left, evs) \<Rightarrow>
             (case main_loop E decode config left [] of
                (res, evs') \<Rightarrow> (res, Os_Read # evs @ evs'))))"
| "main_loop E decode config buffer ((data, ready) # later) =
     (case (if data = [] then Some [] else decode data) of
        None \<Rightarrow> (Inl UnicodeDecodeError, [Os_Read])
      | Some text \<Rightarrow>
          if buffer @ text = [] then (Inr (), [Os_Read])
          else
            (case process_buffer E config (buffer @ text) (data \<noteq> []) ready of
               (Inl e, evs) \<Rightarrow> (Inl e, Os_Read # evs)
             | (Inr left, evs) \<Rightarrow>
                 (case main_loop E decode config left later of
                    (res, evs') \<Rightarrow> (res, Os_Read # evs @ evs'))))"
  by pat_completeness auto
termination
  by (relation "measure (\<lambda>(E, decode, config, buffer, reads).
        2 * length reads + (if buffer = [] then 0 else 1))")
     (auto simp: process_buffer_def Let_def split: if_splits prod.splits sum.splits)

subsection \<open>The entry point\<close>

text \<open>
  \<open>args_init()\<close>. The parser is given one argument, \<open>--config\<close>, with the default
  \<open>'.chromatermrc'\<close>. \<open>parse_args\<close> either leaves the process (\<open>SystemExit\<close>, for
  \<open>--help\<close> and for a command line it rejects) or returns a namespace with the
  attributes of the arguments that were added, here \<open>config\<close> alone. A command line
  is given by what the parser makes of it.
\<close>

datatype cmdline = Rejected | Accepted "pystr option"

fun args_init :: "cmdline \<Rightarrow> exn + (pystr \<times> pyval) list" where
  "args_init Rejected = Inl SystemExit"
| "args_init (Accepted None) = Inr [(str ''config'', PStr (str ''.chromatermrc''))]"
| "args_init (Accepted (Some file)) = Inr [(str ''config'', PStr file)]"

text \<open>Reading an attribute of the namespace.\<close>

definition getattr :: "(pystr \<times> pyval) list \<Rightarrow> pystr \<Rightarrow> exn + pyval" where
  "getattr ns name = (case map_of ns name of None \<Rightarrow> Inl AttributeError | Some v \<Rightarrow> Inr v)"

text \<open>
  \<open>main()\<close>. \<open>demo\<close> is what \<open>chromaterm.colors.demo()\<close> prints and \<open>files\<close> maps a
  path to the content of the file, \<open>None\<close> when \<open>open\<close> raises.
\<close>

definition main ::
  "engine \<Rightarrow> (pyval \<Rightarrow> pystr option) \<Rightarrow> ('d \<Rightarrow> pyval option) \<Rightarrow> (nat list \<Rightarrow> pystr option)
     \<Rightarrow> event list \<Rightarrow> (pyval \<Rightarrow> 'd option) \<Rightarrow> cmdline \<Rightarrow> (nat list \<times> bool) list
     \<Rightarrow> (exn + unit) \<times> event list" where
  "main E get_code safe_load decode demo files cmd reads =
     (case args_init cmd of
        Inl e \<Rightarrow> (Inl e, [])
      | Inr args \<Rightarrow>
          (case getattr args (str ''demo'') of
             Inl e \<Rightarrow> (Inl e, [])
           | Inr d \<Rightarrow>
               if truthy d then (Inr (), demo)
               else
                 (case getattr args (str ''config'') of
                    Inl e \<Rightarrow> (Inl e, [])
                  | Inr path \<Rightarrow>
                      (case files path of
                         None \<Rightarrow> (Inl OSError, [])
                       | Some file \<Rightarrow>
                           (case parse_config E get_code safe_load file of
                              (Inl e, evs) \<Rightarrow> (Inl e, Open_File path # evs)
                            | (Inr config, evs) \<Rightarrow>
                                (case main_loop E decode config [] reads of
                                   (res, evs') \<Rightarrow> (res, Open_File path # evs @ evs')))))))"

subsection \<open>A regular expression engine and a colour table to run the model on\<close>

text \<open>
  To evaluate the model on concrete input the two parameters need values. A pattern
  made of letters and digits only matches exactly its own text and has no group:
  \<open>occurrences p pos s\<close> lists the leftmost non-overlapping occurrences of \<open>p\<close> in
  \<open>s\<close>, whose first character stands at \<open>pos\<close>. The pattern \<open>(a)\<close> has one group
  and matches the letter \<open>a\<close>, the group spanning the match. \<open>sample_engine\<close> answers
  as the \<open>regex\<close> module does on these patterns; the examples use no other.
\<close>

function occurrences :: "pystr \<Rightarrow> nat \<Rightarrow> pystr \<Rightarrow> span list" where
  "occurrences p pos s =
     (if p = [] \<or> length s < length p then []
      else if take (length p) s = p
        then (pos, pos + length p) # occurrences p (pos + length p) (drop (length p) s)
      else occurrences p (Suc pos) (tl s))"
  by pat_completeness auto
termination
  by (relation "measure (\<lambda>(p, pos, s). length s)")
     (auto simp: length_greater_0_conv [symmetric] simp del: length_greater_0_conv)

definition sample_engine :: engine where
  "sample_engine =
     \<lparr>re_groups = (\<lambda>p. Inr (if p = str ''(a)'' then 1 else 0)),
      re_finditer = (\<lambda>p s. Inr
        (if p = str ''(a)'' then map (\<lambda>sp. (sp, [Some sp])) (occurrences (str ''a'') 0 s)
         else map (\<lambda>sp. (sp, [])) (occurrences p 0 s)))\<rparr>"

text \<open>One colour, \<open>red\<close>, with the escape sequence \<open>'\033[31m'\<close>.\<close>

definition sample_colors :: "pyval \<Rightarrow> pystr option" where
  "sample_colors color = (if color = PStr (str ''red'') then Some (27 # str ''[31m'') else None)"

section \<open>Properties\<close>

subsection \<open>Auxiliary facts\<close>

lemma concat_splitlines_from: "concat (splitlines_from cur s) = cur @ s"
  by (induction cur s rule: splitlines_from.induct) auto

lemma splitlines_from_empty_iff: "splitlines_from cur s = [] \<longleftrightarrow> cur = [] \<and> s = []"
  by (induction cur s rule: splitlines_from.induct) auto

lemma concat_splitlines: "concat (splitlines s) = s"
  by (simp add: splitlines_def concat_splitlines_from)

lemma splitlines_empty_iff: "splitlines s = [] \<longleftrightarrow> s = []"
  by (simp add: splitlines_def splitlines_from_empty_iff)

lemma print_lines_all_highlighted:
  "\<forall>l \<in> set ls. highlight E rs l = Inr (h l) \<Longrightarrow>
   print_lines E rs ls = (Inr (), map (\<lambda>l. Print (h l) False) ls)"
  by (induction ls) auto

lemma get_highlight_repl_func_reset_only:
  "reset_string config = reset_string config' \<Longrightarrow>
   get_highlight_repl_func E get_code config pattern color
     = get_highlight_repl_func E get_code config' pattern color"
  by (cases color) simp_all

lemma parse_rule_reset_only:
  assumes "reset_string config = reset_string config'"
  shows "parse_rule E get_code rule config = parse_rule E get_code rule config'"
  unfolding parse_rule_def
  by (simp add: get_highlight_repl_func_reset_only [OF assms]
      split: sum.splits option.splits)

text \<open>
  As long as no rule makes \<open>parse_rule\<close> raise, the loop of \<open>parse_config\<close> appends the
  compiled rules in order and reports the error strings in order.
\<close>

lemma parse_rules_no_raise:
  assumes "\<forall>rule \<in> set rs. \<exists>res. parse_rule E get_code rule base = Inr res"
    and "reset_string config = reset_string base"
  shows "parse_rules E get_code rs config evs =
     (Inr (config\<lparr>rules := rules config @
              concat (map (\<lambda>rule. case parse_rule E get_code rule base of
                                     Inr (Inr c) \<Rightarrow> [c] | _ \<Rightarrow> []) rs)\<rparr>),
      evs @ concat (map (\<lambda>rule. case parse_rule E get_code rule base of
                                     Inr (Inl msg) \<Rightarrow> [Eprint_Rule_Error rule msg] | _ \<Rightarrow> []) rs))"
  using assms
proof (induction rs arbitrary: config evs)
  case Nil
  then show ?case by simp
next
  case (Cons rule rs)
  have same: "parse_rule E get_code rule config = parse_rule E get_code rule base"
    using Cons.prems(2) by (rule parse_rule_reset_only)
  from Cons.prems(1) obtain res where res: "parse_rule E get_code rule base = Inr res"
    by auto
  have rest: "\<forall>rule \<in> set rs. \<exists>res. parse_rule E get_code rule base = Inr res"
    using Cons.prems(1) by simp
  show ?case
  proof (cases res)
    case (Inl msg)
    show ?thesis
      using Cons.IH [OF rest Cons.prems(2), of "evs @ [Eprint_Rule_Error rule msg]"]
      by (simp add: same res Inl)
  next
    case (Inr c)
    have "reset_string (config\<lparr>rules := rules config @ [c]\<rparr>) = reset_string base"
      using Cons.prems(2) by simp
    from Cons.IH [OF rest this, of evs] show ?thesis
      by (simp add: same res Inr)
  qed
qed

lemma check_sub_actions_None_iff:
  "check_sub_actions kvs = None \<longleftrightarrow> list_all (\<lambda>(k, v). isinstance_int k \<and> isinstance_str v) kvs"
  by (induction kvs) (auto split: if_splits)

lemma check_sub_actions_Some:
  "check_sub_actions kvs = Some err \<Longrightarrow>
   \<exists>k v. (k, v) \<in> set kvs \<and>
     (\<not> isinstance_int k \<and> err = SubActionNotInteger k
      \<or> isinstance_int k \<and> \<not> isinstance_str v \<and> err = SubActionValueNotString k)"
proof (induction kvs)
  case Nil
  then show ?case by simp
next
  case (Cons kv kvs)
  obtain k v where kv: "kv = (k, v)"
    by (cases kv)
  show ?case
  proof (cases "isinstance_int k \<and> isinstance_str v")
    case True
    with Cons.prems kv have "check_sub_actions kvs = Some err"
      by simp
    from Cons.IH [OF this] show ?thesis
      by auto
  next
    case False
    with Cons.prems kv show ?thesis
      by (auto split: if_splits)
  qed
qed

lemma collect_actions_error:
  "collect_actions get_code kvs acts = Inl err \<Longrightarrow> err = InvalidColorCode"
  by (induction kvs arbitrary: acts) (auto split: if_splits)

lemma get_highlight_repl_func_error:
  "get_highlight_repl_func E get_code config pattern color = Inr (Inl err) \<Longrightarrow>
   err = InvalidColorCode"
  by (cases color) (auto split: if_splits sum.splits dest: collect_actions_error)

text \<open>
  Whatever the pattern, the colours and the groups kept: the replace function of a
  complex action returns the matched text as it is.
\<close>

lemma complex_repl_func_is_group0:
  "get_highlight_repl_func E get_code config pattern (PDict kvs) = Inr (Inr r) \<Longrightarrow>
   repl_func r m = group0 m"
  by (auto split: sum.splits)

text \<open>A document that \<open>yaml.safe_load\<close> rejects gives the default configuration and one report.\<close>

lemma parse_config_yaml_error:
  "safe_load data = None \<Longrightarrow>
   parse_config E get_code safe_load data = (Inr default_config, [Eprint_Parse_Error])"
  by (simp add: parse_config_def)

text \<open>
  A mapping whose \<open>rules\<close> entry is missing, or is not a list, gives the default
  configuration and no report.
\<close>

lemma parse_config_no_rule_list:
  "safe_load data = Some (PDict doc) \<Longrightarrow>
   list_or_empty (case map_of doc (PStr (str ''rules'')) of None \<Rightarrow> PList [] | Some v \<Rightarrow> v) = [] \<Longrightarrow>
   parse_config E get_code safe_load data = (Inr default_config, [])"
  by (simp add: parse_config_def)

text \<open>
  Without rules \<open>highlight\<close> returns the line as it is, and then a pass of
  \<open>process_buffer\<close> loses and repeats nothing: what it prints, followed by what it
  returns as left-over data, is the buffer.
\<close>

lemma print_lines_no_rules:
  "print_lines E [] ls = (Inr (), map (\<lambda>l. Print l False) ls)"
  by (induction ls) auto

lemma process_buffer_keeps_all_text:
  "\<exists>left evs.
      process_buffer E \<lparr>rules = [], reset_string = r\<rparr> buffer more_data ready = (Inr left, evs)
    \<and> concat (map printed evs) @ left = buffer"
proof (cases "splitlines buffer = []")
  case True
  then show ?thesis
    by (simp add: process_buffer_def splitlines_empty_iff)
next
  case False
  have pm: "map printed (map (\<lambda>l. Print l False) ls) = ls" for ls
    by (induction ls) auto
  have "concat (butlast (splitlines buffer)) @ last (splitlines buffer) = concat (splitlines buffer)"
    using False by (metis append_butlast_last_id concat_append concat.simps append_Nil2)
  with False show ?thesis
    by (simp add: process_buffer_def Let_def print_lines_no_rules pm comp_def concat_splitlines)
qed

text \<open>
  The loop of \<open>main\<close> on the reads \<open>'ab'\<close>, \<open>'cd\n'\<close> and \<open>'ef'\<close>, standard
  input being ready after each of them, and then the end of the input: the line
  \<open>'abcd\n'\<close> is printed in the pass after the third read, \<open>'ef'\<close> is flushed
  at the end.
\<close>

lemma main_loop_three_reads:
  "main_loop sample_engine (\<lambda>bs. Some bs) \<lparr>rules = [], reset_string = []\<rparr> []
      [(str ''ab'', True), (str ''cd\<newline>'', True), (str ''ef'', True)]
    = (Inr (), [Os_Read, Os_Read, Os_Read, Print (str ''abcd\<newline>'') False,
                Os_Read, Print (str ''ef'') True, Os_Read])"
  by (simp add: process_buffer_def splitlines_def line_boundary_def str_def)

subsection \<open>C1: the replace function of a complex action\<close>

text \<open>
  C1 says that the replace function of a complex-action rule wraps the span of every
  kept group in the colour code of the group and the reset string, so that its
  result differs from the matched text when a kept group has a colour. In the source
  both paths of that function return \<open>match.group(0)\<close>. For the rule with the pattern
  \<open>(a)\<close> and the colours \<open>{1: 'red'}\<close>, whose group 1 is kept and has a colour, and
  the match of \<open>a\<close> in \<open>a\<close>, the function returns \<open>a\<close> with no colour code.
\<close>

theorem complex_action_returns_bare_match:
  "\<exists>r. parse_rule sample_engine sample_colors
          (PDict [(PStr (str ''regex''), PStr (str ''(a)'')),
                  (PStr (str ''color''), PDict [(PInt 1, PStr (str ''red''))])])
          default_config = Inr (Inr r)
       \<and> repl_func r \<lparr>m_string = str ''a'', m_span = (0, 1), m_groups = [Some (0, 1)]\<rparr> = str ''a''"
  by (simp add: parse_rule_def sample_engine_def sample_colors_def str_def group0_def)

subsection \<open>C2: \<open>main\<close> reads an attribute that the parser never sets\<close>

text \<open>
  C2: for every command line that the parser accepts, the namespace returned by
  \<open>args_init\<close> has no attribute \<open>demo\<close>, and \<open>main\<close> raises \<open>AttributeError\<close> before
  it opens the configuration file, reads standard input or prints anything.
\<close>

theorem main_raises_before_any_io:
  "(\<exists>ns. args_init (Accepted c) = Inr ns \<and> getattr ns (str ''demo'') = Inl AttributeError)
   \<and> main E get_code safe_load decode demo files (Accepted c) reads = (Inl AttributeError, [])"
  by (cases c) (simp_all add: main_def getattr_def str_def)

subsection \<open>C3: exceptions from compiling and highlighting\<close>

text \<open>
  C3 says that compiling a rule and highlighting never raise, in particular for a rule
  whose pattern is an integer. \<open>parse_rule\<close> accepts the integer pattern \<open>5\<close> and
  passes it on unchanged. With the colour \<open>'red'\<close> the rule compiles, and \<open>highlight\<close>
  with the compiled rule raises \<open>TypeError\<close> in \<open>re.sub\<close>; with the colours
  \<open>{1: 'red'}\<close> \<open>parse_rule\<close> itself raises \<open>TypeError\<close> in \<open>re.compile\<close>.
\<close>

theorem integer_pattern_raises:
  "(\<exists>r. parse_rule sample_engine sample_colors
          (PDict [(PStr (str ''regex''), PInt 5), (PStr (str ''color''), PStr (str ''red''))])
          default_config = Inr (Inr r)
       \<and> highlight sample_engine [r] (str ''5'') = Inl TypeError)
   \<and> parse_rule sample_engine sample_colors
          (PDict [(PStr (str ''regex''), PInt 5),
                  (PStr (str ''color''), PDict [(PInt 1, PStr (str ''red''))])])
          default_config = Inl TypeError"
  by (simp add: parse_rule_def sample_engine_def sample_colors_def str_def)

subsection \<open>C4: a document that is not a mapping\<close>

text \<open>
  C4 says that \<open>parse_config\<close> returns the empty default configuration, without
  raising, for every document that fails to parse or has not the expected shape, a
  document that is empty, a scalar or a list included. For an empty document
  \<open>yaml.safe_load\<close> returns \<open>None\<close>, and \<open>load.get\<close> raises \<open>AttributeError\<close>; so it
  does for a string and for a list.
\<close>

theorem parse_config_non_mapping_raises:
  "parse_config E get_code (\<lambda>d. Some PNone) data = (Inl AttributeError, [])
   \<and> parse_config E get_code (\<lambda>d. Some (PStr s)) data = (Inl AttributeError, [])
   \<and> parse_config E get_code (\<lambda>d. Some (PList xs)) data = (Inl AttributeError, [])"
  by (simp add: parse_config_def)

subsection \<open>C5: what a pass of \<open>process_buffer\<close> holds back\<close>

text \<open>
  C5 says that a pass prints every complete line at once and keeps only the text after
  the last newline. \<open>splitlines\<close> has no empty last element for a buffer that ends
  in a newline, so the last element of \<open>lines\<close> is then a complete line: for the
  buffer \<open>'abc\n'\<close>, with more data coming and standard input ready, nothing is
  printed and the complete line is returned as the left-over data.
\<close>

theorem process_buffer_holds_complete_line:
  "process_buffer E \<lparr>rules = [], reset_string = r\<rparr> (str ''abc\<newline>'') True True
     = (Inr (str ''abc\<newline>''), [])"
  by (simp add: process_buffer_def splitlines_def str_def line_boundary_def)

subsection \<open>C6: the last pass of \<open>process_buffer\<close>\<close>

text \<open>
  C6 says that for every buffer that is not empty \<open>process_buffer\<close> with
  \<open>more = False\<close> prints the whole buffer highlighted, flushes and returns the
  empty string. The configuration with the one rule \<open>{regex: 5, color: 'red'}\<close> is
  built by \<open>parse_config\<close> without a report, since \<open>parse_rule\<close> accepts the
  integer pattern; with it \<open>process_buffer\<close> on the buffer \<open>'x'\<close> raises
  \<open>TypeError\<close> in \<open>highlight\<close>: nothing is printed or flushed and nothing is
  returned.
\<close>

theorem process_buffer_raises_on_integer_pattern:
  "\<exists>config.
      parse_config sample_engine sample_colors
        (\<lambda>d. Some (PDict [(PStr (str ''rules''), PList
           [PDict [(PStr (str ''regex''), PInt 5), (PStr (str ''color''), PStr (str ''red''))]])]))
        () = (Inr config, [])
    \<and> process_buffer sample_engine config (str ''x'') False ready = (Inl TypeError, [])"
  by (simp add: parse_config_def parse_rule_def sample_colors_def default_config_def
      process_buffer_def splitlines_def str_def)

text \<open>
  Where \<open>highlight\<close> returns \<open>h l\<close> for every line \<open>l\<close> of a buffer that is not
  empty, the last pass does print everything: the lines, which together are the whole
  buffer, are printed highlighted and in order, the last one with \<open>flush=True\<close>, and
  the empty string is returned. On the empty buffer nothing is printed and the empty
  string is returned.
\<close>

lemma process_buffer_flushes_when_highlight_returns:
  assumes "buffer \<noteq> []"
    and "\<forall>l \<in> set (splitlines buffer). highlight E (rules config) l = Inr (h l)"
  shows "concat (splitlines buffer) = buffer
     \<and> process_buffer E config buffer False ready =
         (Inr [], map (\<lambda>l. Print (h l) False) (butlast (splitlines buffer))
                    @ [Print (h (last (splitlines buffer))) True])
     \<and> process_buffer E config [] False ready = (Inr [], [])"
proof -
  let ?ls = "splitlines buffer"
  from assms(1) have ne: "?ls \<noteq> []"
    by (simp add: splitlines_empty_iff)
  have "\<forall>l \<in> set (butlast ?ls). highlight E (rules config) l = Inr (h l)"
    using assms(2) by (meson in_set_butlastD)
  then have pl: "print_lines E (rules config) (butlast ?ls)
      = (Inr (), map (\<lambda>l. Print (h l) False) (butlast ?ls))"
    by (rule print_lines_all_highlighted)
  have lst: "highlight E (rules config) (last ?ls) = Inr (h (last ?ls))"
    using assms(2) ne by simp
  have "process_buffer E config buffer False ready =
         (Inr [], map (\<lambda>l. Print (h l) False) (butlast ?ls) @ [Print (h (last ?ls)) True])"
    using ne pl lst by (simp add: process_buffer_def Let_def)
  moreover have "process_buffer E config [] False ready = (Inr [], [])"
    by (simp add: process_buffer_def splitlines_def)
  ultimately show ?thesis
    by (simp add: concat_splitlines)
qed

text \<open>
  At the buffer \<open>'ab\ncd'\<close> with one rule that puts \<open>c\<close> in angle brackets: the
  line \<open>'ab\n'\<close> is printed, then \<open>'<c>d'\<close> with a flush.
\<close>

lemma process_buffer_flushes_example:
  "process_buffer sample_engine
      \<lparr>rules = [\<lparr>regex = PStr (str ''c''), repl_func = (\<lambda>m. str ''<'' @ group0 m @ str ''>'')\<rparr>],
       reset_string = []\<rparr>
      (str ''ab\<newline>cd'') False True
    = (Inr [], [Print (str ''ab\<newline>'') False, Print (str ''<c>d'') True])"
proof -
  let ?cfg = "\<lparr>rules = [\<lparr>regex = PStr (str ''c''), repl_func = (\<lambda>m. str ''<'' @ group0 m @ str ''>'')\<rparr>],
       reset_string = []\<rparr>"
  let ?h = "\<lambda>l. if l = str ''cd'' then str ''<c>d'' else l"
  have sl: "splitlines (str ''ab\<newline>cd'') = [str ''ab\<newline>'', str ''cd'']"
    by (simp add: splitlines_def str_def line_boundary_def)
  have ne: "str ''ab\<newline>cd'' \<noteq> []"
    by (simp add: str_def)
  have "\<forall>l \<in> set (splitlines (str ''ab\<newline>cd'')). highlight sample_engine (rules ?cfg) l = Inr (?h l)"
    unfolding sl by (simp add: sample_engine_def str_def group0_def)
  from process_buffer_flushes_when_highlight_returns [OF ne this, of True] show ?thesis
    unfolding sl by (simp add: str_def)
qed

subsection \<open>C7: the keys and values of a colour dict\<close>

text \<open>
  C7 says that \<open>parse_rule\<close> rejects a colour dict with a key that is not a
  non-negative integer, a negative key in particular. The check in the source is
  \<open>isinstance(sub_action, int)\<close> and nothing looks at the sign: the rule with the
  pattern \<open>a\<close> and the colours \<open>{-1: 'red'}\<close> compiles.
\<close>

theorem negative_group_index_accepted:
  "\<exists>r. parse_rule sample_engine sample_colors
          (PDict [(PStr (str ''regex''), PStr (str ''a'')),
                  (PStr (str ''color''), PDict [(PInt (- 1), PStr (str ''red''))])])
          default_config = Inr (Inr r)"
  by (simp add: parse_rule_def sample_engine_def sample_colors_def str_def)

text \<open>
  C7 as the code has it. Take a rule whose pattern passes the checks on the pattern
  and whose colour is a dict with at least one item. If every key is an integer (a
  boolean counts as one) and every value a string, \<open>parse_rule\<close> returns neither of
  the two sub-action errors. Otherwise it returns a sub-action error that names the
  key of an item of the dict: \<open>'sub-action {} not integer'\<close> with a key that is not an
  integer, or \<open>'sub-action {} value not string '\<close> with an integer key whose value is
  not a string.
\<close>

theorem parse_rule_sub_action_errors:
  assumes "dict_get rule (str ''regex'') PNone = Inr pattern"
    and "truthy pattern"
    and "isinstance_str pattern \<or> isinstance_int pattern"
    and "dict_get rule (str ''color'') PNone = Inr (PDict kvs)"
    and "kvs \<noteq> []"
  shows "(list_all (\<lambda>(k, v). isinstance_int k \<and> isinstance_str v) kvs \<longrightarrow>
            (\<forall>k. parse_rule E get_code rule config \<noteq> Inr (Inl (SubActionNotInteger k))
               \<and> parse_rule E get_code rule config \<noteq> Inr (Inl (SubActionValueNotString k))))
       \<and> (\<not> list_all (\<lambda>(k, v). isinstance_int k \<and> isinstance_str v) kvs \<longrightarrow>
            (\<exists>k v. (k, v) \<in> set kvs \<and>
               (\<not> isinstance_int k
                  \<and> parse_rule E get_code rule config = Inr (Inl (SubActionNotInteger k))
                \<or> isinstance_int k \<and> \<not> isinstance_str v
                  \<and> parse_rule E get_code rule config = Inr (Inl (SubActionValueNotString k)))))"
proof -
  have pr: "parse_rule E get_code rule config =
      (case check_sub_actions kvs of
         Some err \<Rightarrow> Inr (Inl err)
       | None \<Rightarrow> get_highlight_repl_func E get_code config pattern (PDict kvs))"
    using assms by (auto simp: parse_rule_def)
  show ?thesis
  proof (cases "check_sub_actions kvs")
    case None
    then have all: "list_all (\<lambda>(k, v). isinstance_int k \<and> isinstance_str v) kvs"
      by (simp add: check_sub_actions_None_iff)
    have "parse_rule E get_code rule config \<noteq> Inr (Inl (SubActionNotInteger k))
        \<and> parse_rule E get_code rule config \<noteq> Inr (Inl (SubActionValueNotString k))" for k
      using get_highlight_repl_func_error [of E get_code config pattern "PDict kvs"]
      by (auto simp: pr None)
    with all show ?thesis
      by blast
  next
    case (Some err)
    then have nall: "\<not> list_all (\<lambda>(k, v). isinstance_int k \<and> isinstance_str v) kvs"
      using check_sub_actions_None_iff [of kvs] by simp
    from check_sub_actions_Some [OF Some] obtain k v where
      "(k, v) \<in> set kvs"
      "\<not> isinstance_int k \<and> err = SubActionNotInteger k
        \<or> isinstance_int k \<and> \<not> isinstance_str v \<and> err = SubActionValueNotString k"
      by blast
    then have "\<exists>k v. (k, v) \<in> set kvs \<and>
               (\<not> isinstance_int k
                  \<and> parse_rule E get_code rule config = Inr (Inl (SubActionNotInteger k))
                \<or> isinstance_int k \<and> \<not> isinstance_str v
                  \<and> parse_rule E get_code rule config = Inr (Inl (SubActionValueNotString k)))"
      by (auto simp: pr Some)
    with nall show ?thesis
      by blast
  qed
qed

text \<open>
  The amended C7 at the colours \<open>{1: 'red', 'x': 'red'}\<close>: the string key \<open>x\<close> is
  reported as not an integer.
\<close>

theorem parse_rule_sub_action_errors_witness:
  "parse_rule sample_engine sample_colors
     (PDict [(PStr (str ''regex''), PStr (str ''a'')),
             (PStr (str ''color''), PDict [(PInt 1, PStr (str ''red'')), (PStr (str ''x''), PStr (str ''red''))])])
     default_config = Inr (Inl (SubActionNotInteger (PStr (str ''x''))))"
proof -
  let ?kvs = "[(PInt 1, PStr (str ''red'')), (PStr (str ''x''), PStr (str ''red''))]"
  let ?rule = "PDict [(PStr (str ''regex''), PStr (str ''a'')), (PStr (str ''color''), PDict ?kvs)]"
  have 1: "dict_get ?rule (str ''regex'') PNone = Inr (PStr (str ''a''))"
    by (simp add: str_def)
  have 2: "truthy (PStr (str ''a''))"
    by (simp add: str_def)
  have 3: "isinstance_str (PStr (str ''a'')) \<or> isinstance_int (PStr (str ''a''))"
    by simp
  have 4: "dict_get ?rule (str ''color'') PNone = Inr (PDict ?kvs)"
    by (simp add: str_def)
  have 5: "?kvs \<noteq> []"
    by simp
  from parse_rule_sub_action_errors [OF 1 2 3 4 5, of sample_engine sample_colors default_config]
  show ?thesis
    by auto
qed

subsection \<open>C8: one simple-action rule, one match\<close>

text \<open>
  C8: let \<open>X\<close> be the code of the colour \<open>C\<close>, and let the pattern \<open>P\<close> have exactly
  one match in the line, from position \<open>s\<close> to position \<open>e\<close>. Then the line is the
  text before the match, the matched text and the text after it; the simple-action
  rule for \<open>P\<close> and \<open>C\<close> compiles; and \<open>highlight\<close> with this rule alone returns the
  text before the match, \<open>X\<close>, the matched text, the reset string and the text after
  the match.
\<close>

theorem simple_rule_wraps_single_match:
  assumes "get_code (PStr C) = Some X" and "X \<noteq> []"
    and "re_finditer E P line = Inr [((s, e), gs)]"
    and "s \<le> e" and "e \<le> length line"
  shows "line = take s line @ take (e - s) (drop s line) @ drop e line
       \<and> (\<exists>rule.
           get_highlight_repl_func E get_code config (PStr P) (PStr C) = Inr (Inr rule)
         \<and> highlight E [rule] line =
             Inr (take s line @ X @ take (e - s) (drop s line) @ reset_string config @ drop e line))"
proof -
  let ?rule = "\<lparr>regex = PStr P, repl_func = (\<lambda>m. X @ group0 m @ reset_string config)\<rparr>"
  let ?pre = "take s line" and ?m = "take (e - s) (drop s line)" and ?post = "drop e line"
  have c: "get_highlight_repl_func E get_code config (PStr P) (PStr C) = Inr (Inr ?rule)"
    using assms(1,2) by simp
  have "drop (e - s) (drop s line) = ?post"
    using assms(4) by simp
  then have "drop s line = ?m @ ?post"
    by (metis append_take_drop_id)
  then have split: "line = ?pre @ ?m @ ?post"
    by (metis append_take_drop_id)
  have "highlight E [?rule] line = Inr (?pre @ X @ ?m @ reset_string config @ ?post)"
    using assms(3) by (simp add: group0_def)
  with c split show ?thesis
    by blast
qed

text \<open>
  C8 at the pattern \<open>b\<close>, the colour \<open>red\<close> and the line \<open>abc\<close>: the result is
  \<open>a\<close>, the code of red, \<open>b\<close>, the reset string and \<open>c\<close>.
\<close>

theorem simple_rule_wraps_single_match_witness:
  "\<exists>rule. get_highlight_repl_func sample_engine sample_colors default_config
             (PStr (str ''b'')) (PStr (str ''red'')) = Inr (Inr rule)
         \<and> highlight sample_engine [rule] (str ''abc'') =
             Inr (str ''a'' @ (27 # str ''[31m'') @ str ''b'' @ (27 # str ''[0m'') @ str ''c'')"
proof -
  have 1: "sample_colors (PStr (str ''red'')) = Some (27 # str ''[31m'')"
    by (simp add: sample_colors_def)
  have 2: "27 # str ''[31m'' \<noteq> []"
    by simp
  have 3: "re_finditer sample_engine (str ''b'') (str ''abc'') = Inr [((1, 2), [])]"
    by (simp add: sample_engine_def str_def)
  have 4: "(1::nat) \<le> 2" and 5: "2 \<le> length (str ''abc'')"
    by (simp_all add: str_def)
  from simple_rule_wraps_single_match
    [where get_code = sample_colors and config = default_config, OF 1 2 3 4 5]
  show ?thesis
    by (simp add: str_def default_config_def)
qed

subsection \<open>C9: a rule list with a malformed rule\<close>

text \<open>
  C9 says that for every list of rule records each malformed rule is reported once
  and skipped while the other rules stay active. The loop of \<open>parse_config\<close> calls
  \<open>parse_rule\<close> unguarded. For three rules of which the second is the string
  \<open>'b'\<close> and no mapping, \<open>rule.get\<close> raises \<open>AttributeError\<close>; for three rules of
  which the second is \<open>{regex: 5, color: {1: 'red'}}\<close>, \<open>re.compile\<close> raises
  \<open>TypeError\<close>. Either way \<open>parse_config\<close> returns no configuration and reports
  nothing, and the first and the third rule are lost with the second.
\<close>

theorem parse_config_raises_on_rule:
  "parse_config sample_engine sample_colors
     (\<lambda>d. Some (PDict [(PStr (str ''rules''), PList
        [PDict [(PStr (str ''regex''), PStr (str ''a'')), (PStr (str ''color''), PStr (str ''red''))],
         PStr (str ''b''),
         PDict [(PStr (str ''regex''), PStr (str ''c'')), (PStr (str ''color''), PStr (str ''red''))]])]))
     () = (Inl AttributeError, [])
   \<and> parse_config sample_engine sample_colors
     (\<lambda>d. Some (PDict [(PStr (str ''rules''), PList
        [PDict [(PStr (str ''regex''), PStr (str ''a'')), (PStr (str ''color''), PStr (str ''red''))],
         PDict [(PStr (str ''regex''), PInt 5),
                (PStr (str ''color''), PDict [(PInt 1, PStr (str ''red''))])],
         PDict [(PStr (str ''regex''), PStr (str ''c'')), (PStr (str ''color''), PStr (str ''red''))]])]))
     () = (Inl TypeError, [])"
  by (simp add: parse_config_def parse_rule_def sample_colors_def sample_engine_def
      default_config_def str_def)

text \<open>
  Where \<open>parse_rule\<close> returns, a compiled rule or an error string, for every rule of
  the list \<open>rs\<close> under \<open>rules\<close>, the loop does what C9 says: \<open>parse_config\<close>
  returns a configuration with the default reset string whose rules are the compiled
  rules of \<open>rs\<close> in order, and it reports exactly the rules for which \<open>parse_rule\<close>
  returned an error string, each once and in order; rules and reports together are
  as many as \<open>rs\<close> has rules.
\<close>

lemma parse_config_skips_when_parse_rule_returns:
  assumes "safe_load data = Some (PDict doc)"
    and "map_of doc (PStr (str ''rules'')) = Some (PList rs)"
    and "\<forall>rule \<in> set rs. \<exists>res. parse_rule E get_code rule default_config = Inr res"
  shows "\<exists>config evs.
           parse_config E get_code safe_load data = (Inr config, evs)
         \<and> reset_string config = reset_string default_config
         \<and> rules config = concat (map (\<lambda>rule. case parse_rule E get_code rule default_config of
                                     Inr (Inr c) \<Rightarrow> [c] | _ \<Rightarrow> []) rs)
         \<and> evs = concat (map (\<lambda>rule. case parse_rule E get_code rule default_config of
                                     Inr (Inl msg) \<Rightarrow> [Eprint_Rule_Error rule msg] | _ \<Rightarrow> []) rs)
         \<and> length (rules config) + length evs = length rs"
proof -
  let ?act = "concat (map (\<lambda>rule. case parse_rule E get_code rule default_config of
                                     Inr (Inr c) \<Rightarrow> [c] | _ \<Rightarrow> []) rs)"
  let ?err = "concat (map (\<lambda>rule. case parse_rule E get_code rule default_config of
                                     Inr (Inl msg) \<Rightarrow> [Eprint_Rule_Error rule msg] | _ \<Rightarrow> []) rs)"
  have "parse_rules E get_code rs default_config [] =
      (Inr (default_config\<lparr>rules := rules default_config @ ?act\<rparr>), [] @ ?err)"
    using assms(3) by (intro parse_rules_no_raise) simp_all
  then have pc: "parse_config E get_code safe_load data
      = (Inr (default_config\<lparr>rules := ?act\<rparr>), ?err)"
    using assms(1,2) by (simp add: parse_config_def default_config_def)
  have "length ?act + length ?err = length rs"
    using assms(3)
  proof (induction rs)
    case Nil
    then show ?case by simp
  next
    case (Cons rule rs)
    then obtain res where "parse_rule E get_code rule default_config = Inr res"
      by auto
    with Cons show ?case
      by (cases res) simp_all
  qed
  with pc show ?thesis
    by simp
qed

text \<open>
  At three rules of which the second has no colour: the first and the third rule are
  active and the second is the one rule reported, as \<open>'color not found'\<close>.
\<close>

lemma parse_config_skips_example:
  "\<exists>config. parse_config sample_engine sample_colors
       (\<lambda>d. Some (PDict [(PStr (str ''rules''), PList
          [PDict [(PStr (str ''regex''), PStr (str ''a'')), (PStr (str ''color''), PStr (str ''red''))],
           PDict [(PStr (str ''regex''), PStr (str ''b''))],
           PDict [(PStr (str ''regex''), PStr (str ''c'')), (PStr (str ''color''), PStr (str ''red''))]])]))
       ()
     = (Inr config, [Eprint_Rule_Error (PDict [(PStr (str ''regex''), PStr (str ''b''))]) ColorNotFound])
   \<and> map regex (rules config) = [PStr (str ''a''), PStr (str ''c'')]"
proof -
  let ?r1 = "PDict [(PStr (str ''regex''), PStr (str ''a'')), (PStr (str ''color''), PStr (str ''red''))]"
  let ?r2 = "PDict [(PStr (str ''regex''), PStr (str ''b''))]"
  let ?r3 = "PDict [(PStr (str ''regex''), PStr (str ''c'')), (PStr (str ''color''), PStr (str ''red''))]"
  let ?doc = "[(PStr (str ''rules''), PList [?r1, ?r2, ?r3])]"
  have 1: "(\<lambda>d::unit. Some (PDict ?doc)) () = Some (PDict ?doc)"
    by simp
  have 2: "map_of ?doc (PStr (str ''rules'')) = Some (PList [?r1, ?r2, ?r3])"
    by simp
  have 3: "\<forall>rule \<in> set [?r1, ?r2, ?r3].
      \<exists>res. parse_rule sample_engine sample_colors rule default_config = Inr res"
    by (simp add: parse_rule_def sample_colors_def str_def)
  from parse_config_skips_when_parse_rule_returns
    [where safe_load = "\<lambda>d::unit. Some (PDict ?doc)" and data = "()", OF 1 2 3]
  show ?thesis
    by (auto simp: parse_rule_def sample_colors_def str_def)
qed

subsection \<open>C10: a line that no pattern matches\<close>



end
